theory Spec2Isabelle
  imports Main "HOL-Library.Sublist" "HOL-Library.AList"
begin

text \<open>
  The turn engine of miniclawd and the session store under it: \<^verbatim>\<open>utils/paths.ts\<close>,
  \<^verbatim>\<open>infrastructure/storage/session-store.ts\<close>, \<^verbatim>\<open>tools/message.ts\<close>, the provider wrapper
  \<^verbatim>\<open>AIProvider\<close> and the agent loop \<^verbatim>\<open>AgentLoop\<close>, as functions on an explicit state.
  What the program calls but does not contain here (the AI SDK, the tool registry, the
  context builder, the clock) is a parameter; these collaborators are taken to return,
  and so is \<^verbatim>\<open>writeFileSync\<close>. Turns are taken one at a time.
\<close>

section \<open>Values\<close>

subsection \<open>JavaScript values that JSON can carry\<close>

text \<open>
  A session file is a sequence of lines, each the \<^verbatim>\<open>JSON.stringify\<close> text of one
  JavaScript value. \<open>jval\<close> is such a value other than \<^verbatim>\<open>null\<close>; a value that may be
  \<^verbatim>\<open>null\<close> is a \<open>jval option\<close>, with \<open>None\<close> for \<^verbatim>\<open>null\<close>. An object is the list of
  its own properties. Numbers are only ever tested for being zero (truthiness), so
  integers stand for them.
\<close>

datatype jval =
    JBool bool
  | JNum int
  | JStr string
  | JArr "jval option list"
  | JObj "(string \<times> jval option) list"

type_synonym json = "jval option"

text \<open>
  \<^verbatim>\<open>v.name\<close> for the property names the code reads (\<^verbatim>\<open>_type\<close>, \<^verbatim>\<open>metadata\<close>,
  \<^verbatim>\<open>role\<close>, \<^verbatim>\<open>content\<close>): the outer \<open>None\<close> is \<^verbatim>\<open>undefined\<close>. Booleans, numbers,
  strings and arrays have none of these properties.
\<close>

fun get_prop :: "jval \<Rightarrow> string \<Rightarrow> json option" where
  "get_prop (JObj fs) name = map_of fs name"
| "get_prop _ name = None"

text \<open>Truthiness, as \<^verbatim>\<open>||\<close> and \<^verbatim>\<open>if\<close> test it.\<close>

fun truthy :: "jval \<Rightarrow> bool" where
  "truthy (JBool b) = b"
| "truthy (JNum n) = (n \<noteq> 0)"
| "truthy (JStr s) = (s \<noteq> [])"
| "truthy (JArr _) = True"
| "truthy (JObj _) = True"

text \<open>\<^verbatim>\<open>x || {}\<close> for a property value \<open>x\<close> that may be \<^verbatim>\<open>undefined\<close> or \<^verbatim>\<open>null\<close>.\<close>

fun or_empty_object :: "json option \<Rightarrow> jval" where
  "or_empty_object (Some (Some v)) = (if truthy v then v else JObj [])"
| "or_empty_object _ = JObj []"

subsection \<open>Strings\<close>

text \<open>
  A string is its sequence of code units; \<^typ>\<open>char\<close> covers the code units below 256.
  \<^verbatim>\<open>s.replace(pat, rep)\<close> with a string pattern replaces the first occurrence only.
\<close>

fun replace_first :: "string \<Rightarrow> string \<Rightarrow> string \<Rightarrow> string" where
  "replace_first pat rep [] = (if pat = [] then rep else [])"
| "replace_first pat rep (c # cs) =
     (if prefix pat (c # cs) then rep @ drop (length pat) (c # cs)
      else c # replace_first pat rep cs)"

text \<open>\<^verbatim>\<open>s.replace(new RegExp("\\" + c, "g"), rep)\<close>: every occurrence of the character.\<close>

definition replace_all :: "char \<Rightarrow> string \<Rightarrow> string \<Rightarrow> string" where
  "replace_all c rep s = concat (map (\<lambda>x. if x = c then rep else [x]) s)"

text \<open>White space that \<^verbatim>\<open>trim\<close> strips, among the code units below 256.\<close>

definition is_space :: "char \<Rightarrow> bool" where
  "is_space c = (of_char c \<in> {9, 10, 11, 12, 13, 32, 160 :: nat})"

definition trim :: "string \<Rightarrow> string" where
  "trim s = rev (dropWhile is_space (rev (dropWhile is_space s)))"

text \<open>\<^verbatim>\<open>s.endsWith(suf)\<close>.\<close>

definition endsWith :: "string \<Rightarrow> string \<Rightarrow> bool" where
  "endsWith s suf = suffix suf s"

text \<open>\<^verbatim>\<open>s.split(":")\<close> (all the pieces) and \<^verbatim>\<open>s.split(":", 2)\<close> (the first two of them).\<close>

fun split_on :: "char \<Rightarrow> string \<Rightarrow> string list" where
  "split_on c [] = [[]]"
| "split_on c (x # xs) =
     (if x = c then [] # split_on c xs
      else (case split_on c xs of
              [] \<Rightarrow> [[x]]
            | p # ps \<Rightarrow> (x # p) # ps))"

definition split_limit :: "char \<Rightarrow> nat \<Rightarrow> string \<Rightarrow> string list" where
  "split_limit c n s = take n (split_on c s)"

section \<open>utils/paths.ts\<close>

text \<open>The characters of the literal \<^verbatim>\<open>'<>:"/\\|?*'\<close>, in order.\<close>

definition unsafe :: string where
  "unsafe = [CHR ''<'', CHR ''>'', CHR '':'', CHR 0x22, CHR ''/'', CHR 0x5C,
             CHR ''|'', CHR ''?'', CHR ''*'']"

definition safeFilename :: "string \<Rightarrow> string" where
  "safeFilename name = trim (foldl (\<lambda>result c. replace_all c ''_'' result) name unsafe)"

section \<open>infrastructure/storage/session-store.ts\<close>

subsection \<open>Sessions\<close>

text \<open>
  A \<^verbatim>\<open>Session\<close>. A message is kept as the JavaScript value it is: \<^verbatim>\<open>load\<close> adopts
  whatever a line parses to (\<^verbatim>\<open>data as SessionMessage\<close>). Messages and metadata are
  values that JSON can carry, as all that the store builds are.

  The \<^verbatim>\<open>Date\<close> fields \<^verbatim>\<open>createdAt\<close> and \<^verbatim>\<open>updatedAt\<close> are readings of the wall clock;
  they are left out of the record, and so is the text they contribute to the metadata
  line of a session file. This takes every \<^verbatim>\<open>createdAt\<close> to be a date, as every one
  that \<open>save\<close> writes is: a file edited by hand to carry a \<^verbatim>\<open>createdAt\<close> that is no date
  would load with an invalid \<^verbatim>\<open>Date\<close>, on which \<^verbatim>\<open>toISOString\<close> in \<open>save\<close> throws. Such
  files are outside this development.
\<close>

record session =
  key :: string
  messages :: "jval list"
  metadata :: jval

definition createSession :: "string \<Rightarrow> session" where
  "createSession k = \<lparr> key = k, messages = [], metadata = JObj [] \<rparr>"

text \<open>
  \<^verbatim>\<open>{ role, content, timestamp, ...extras }\<close>: a property of \<open>extras\<close> replaces the
  property of the same name in place, a new one is added at the end.
\<close>

definition spread :: "(string \<times> json) list \<Rightarrow> (string \<times> json) list \<Rightarrow> (string \<times> json) list" where
  "spread obj extras = foldl (\<lambda>acc (k, v). AList.update k v acc) obj extras"

text \<open>
  \<open>addMessage\<close>; \<open>now\<close> is \<^verbatim>\<open>new Date().toISOString()\<close>, read by the caller, and an
  omitted \<open>extras\<close> is the empty list.
\<close>

definition addMessage :: "session \<Rightarrow> string \<Rightarrow> string \<Rightarrow> string \<Rightarrow> (string \<times> json) list \<Rightarrow> session" where
  "addMessage s role content now extras =
     s \<lparr> messages := messages s @
            [JObj (spread [(''role'', Some (JStr role)),
                           (''content'', Some (JStr content)),
                           (''timestamp'', Some (JStr now))] extras)] \<rparr>"

text \<open>
  \<open>getHistory\<close>: the last \<open>maxMessages\<close> messages as role and content.
  \<^verbatim>\<open>slice(-0)\<close> is \<^verbatim>\<open>slice(0)\<close>, the whole array.
\<close>

definition getHistory :: "session \<Rightarrow> nat \<Rightarrow> (json option \<times> json option) list" where
  "getHistory s maxMessages =
     (let recent =
        (if length (messages s) > maxMessages
         then (if maxMessages = 0 then messages s
               else drop (length (messages s) - maxMessages) (messages s))
         else messages s)
      in map (\<lambda>m. (get_prop m ''role'', get_prop m ''content'')) recent)"

definition clearSession :: "session \<Rightarrow> session" where
  "clearSession s = s \<lparr> messages := [] \<rparr>"

subsection \<open>Files\<close>

text \<open>
  A line of a file, by what \<^verbatim>\<open>line.trim()\<close> and \<^verbatim>\<open>JSON.parse(line)\<close> make of it:
  \<open>Blank\<close> is empty after trimming, \<open>Text v\<close> parses to \<open>v\<close>, \<open>Junk\<close> is any other text,
  on which \<^verbatim>\<open>JSON.parse\<close> throws. \<^verbatim>\<open>JSON.stringify(v)\<close> writes a line \<open>Text v\<close>: it has
  no line break and is not blank.
  A file is \<open>Unreadable\<close> when it exists and \<^verbatim>\<open>readFileSync\<close> throws on it; otherwise it
  is its lines, \<^verbatim>\<open>content.split("\n")\<close>.
  The sessions directory is the list of its entries, by file name:
  \<^verbatim>\<open>join(sessionsDir, name)\<close> names a file of the one directory, so a path is
  identified with the name.
\<close>

datatype line = Blank | Junk | Text json

datatype file_data = Unreadable | Content "line list"

type_synonym directory = "(string \<times> file_data) list"

datatype error = IOError | SyntaxError | TypeError

subsection \<open>SessionManager\<close>

text \<open>
  The state of the program as far as this development follows it: the private cache
  of \<^verbatim>\<open>SessionManager\<close> (a \<^verbatim>\<open>Map\<close>, kept as the list of its entries), the sessions
  directory, the contexts last set on the message and spawn tools (channel, chat id,
  and metadata for the message tool), and \<open>ext\<close>, all that lies outside (the model
  provider, the bus, the workspace, the clock).
\<close>

record 'e world =
  cache :: "(string \<times> session) list"
  disk :: directory
  messageTool :: "string \<times> string \<times> jval"
  spawnTool :: "string \<times> string"
  ext :: 'e

text \<open>\<open>getSessionPath\<close>: the file of a key, by its name in the sessions directory.\<close>

definition getSessionPath :: "string \<Rightarrow> string" where
  "getSessionPath k = safeFilename (replace_first '':'' ''_'' k) @ ''.jsonl''"

text \<open>The test \<^verbatim>\<open>data._type === "metadata"\<close>.\<close>

definition is_metadata_line :: "jval \<Rightarrow> bool" where
  "is_metadata_line data = (get_prop data ''_type'' = Some (Some (JStr ''metadata'')))"

text \<open>
  The loop of \<open>load\<close> over the lines that are not blank; a throw ends it:
  \<^verbatim>\<open>JSON.parse\<close> throws on text that is not JSON, and \<^verbatim>\<open>data._type\<close> throws when the line
  parses to \<^verbatim>\<open>null\<close>.
\<close>

fun load_lines :: "line list \<Rightarrow> jval list \<Rightarrow> jval \<Rightarrow> error + (jval list \<times> jval)" where
  "load_lines [] msgs md = Inr (msgs, md)"
| "load_lines (Blank # ls) msgs md = Inl SyntaxError"
| "load_lines (Junk # ls) msgs md = Inl SyntaxError"
| "load_lines (Text None # ls) msgs md = Inl TypeError"
| "load_lines (Text (Some data) # ls) msgs md =
     (if is_metadata_line data
      then load_lines ls msgs (or_empty_object (get_prop data ''metadata''))
      else load_lines ls (msgs @ [data]) md)"

text \<open>The body of the \<^verbatim>\<open>try\<close> block of \<open>load\<close>.\<close>

definition load_try :: "string \<Rightarrow> file_data \<Rightarrow> error + session" where
  "load_try k f =
     (case f of
        Unreadable \<Rightarrow> Inl IOError
      | Content content \<Rightarrow>
          (case load_lines (filter (\<lambda>l. l \<noteq> Blank) content) [] (JObj []) of
             Inl e \<Rightarrow> Inl e
           | Inr (msgs, md) \<Rightarrow> Inr \<lparr> key = k, messages = msgs, metadata = md \<rparr>))"

text \<open>\<open>load\<close>: \<open>None\<close> is \<^verbatim>\<open>null\<close>; the \<^verbatim>\<open>catch\<close> turns every throw into it.\<close>

definition load :: "string \<Rightarrow> 'e world \<Rightarrow> session option" where
  "load k w =
     (case map_of (disk w) (getSessionPath k) of
        None \<Rightarrow> None
      | Some f \<Rightarrow>
          (case load_try k f of
             Inl e \<Rightarrow> None
           | Inr s \<Rightarrow> Some s))"

definition getOrCreate :: "string \<Rightarrow> 'e world \<Rightarrow> session \<times> 'e world" where
  "getOrCreate k w =
     (case map_of (cache w) k of
        Some cached \<Rightarrow> (cached, w)
      | None \<Rightarrow>
          (let s = (case load k w of Some loaded \<Rightarrow> loaded | None \<Rightarrow> createSession k)
           in (s, w \<lparr> cache := AList.update k s (cache w) \<rparr>)))"

text \<open>
  The lines \<open>save\<close> writes, \<^verbatim>\<open>lines.join("\n") + "\n"\<close>: the metadata line, one line for
  each message, and the empty piece after the last line break.
\<close>

definition session_file :: "session \<Rightarrow> file_data" where
  "session_file s =
     Content (Text (Some (JObj [(''_type'', Some (JStr ''metadata'')),
                                (''metadata'', Some (metadata s))]))
              # map (\<lambda>m. Text (Some m)) (messages s) @ [Blank])"

definition save :: "session \<Rightarrow> 'e world \<Rightarrow> 'e world" where
  "save s w =
     w \<lparr> disk := AList.update (getSessionPath (key s)) (session_file s) (disk w),
         cache := AList.update (key s) s (cache w) \<rparr>"

text \<open>
  \<open>listSessions\<close>, before its final sort by \<^verbatim>\<open>updatedAt\<close>: the key and the path of every
  entry. A file is skipped when reading it throws, when its first line is empty, does
  not parse or parses to \<^verbatim>\<open>null\<close>, or is not a metadata line.
\<close>

definition listed_key :: "string \<Rightarrow> string" where
  "listed_key name = replace_first ''_'' '':'' (replace_first ''.jsonl'' '''' name)"

definition is_metadata_first :: "file_data \<Rightarrow> bool" where
  "is_metadata_first f =
     (case f of
        Content (Text (Some data) # ls) \<Rightarrow> is_metadata_line data
      | _ \<Rightarrow> False)"

definition listSessions :: "'e world \<Rightarrow> (string \<times> string) list" where
  "listSessions w =
     map (\<lambda>(name, f). (listed_key name, name))
       (filter (\<lambda>(name, f). endsWith name ''.jsonl'' \<and> is_metadata_first f) (disk w))"

section \<open>core/types and infrastructure/queue/events.ts\<close>

text \<open>\<^verbatim>\<open>InboundMessage\<close> and \<^verbatim>\<open>OutboundMessage\<close>; a time stamp is its ISO text.\<close>

record inbound_message =
  in_channel :: string
  in_senderId :: string
  in_chatId :: string
  in_content :: string
  in_timestamp :: string
  in_media :: "string list"
  in_metadata :: jval

record outbound_message =
  out_channel :: string
  out_chatId :: string
  out_content :: string
  out_media :: "string list"
  out_metadata :: jval

text \<open>
  \<open>createOutboundMessage\<close>, as \<^verbatim>\<open>tools/message.ts\<close> defines it:
  \<^verbatim>\<open>{ media: [], metadata: {}, ...partial }\<close>. The agent loop imports the function of
  this name from \<^verbatim>\<open>events.ts\<close>, which is not among the sources. No caller passes
  \<^verbatim>\<open>media\<close>; \<open>None\<close> is a \<^verbatim>\<open>partial\<close> without \<^verbatim>\<open>metadata\<close>.
\<close>

definition createOutboundMessage :: "string \<Rightarrow> string \<Rightarrow> string \<Rightarrow> jval option \<Rightarrow> outbound_message" where
  "createOutboundMessage channel chatId content md =
     \<lparr> out_channel = channel, out_chatId = chatId, out_content = content, out_media = [],
       out_metadata = (case md of None \<Rightarrow> JObj [] | Some m \<Rightarrow> m) \<rparr>"

text \<open>
  Modelled from the spec: \<open>getSessionKey\<close> of \<^verbatim>\<open>infrastructure/queue/events.ts\<close>, a file
  that is not among the sources. The spec gives the session key of an inbound message
  as \<^verbatim>\<open>channel:chatId\<close>.
\<close>

definition getSessionKey :: "inbound_message \<Rightarrow> string" where
  "getSessionKey msg = in_channel msg @ '':'' @ in_chatId msg"

section \<open>tools/message.ts\<close>

text \<open>
  The parameters of the message tool. Its state is the send callback, if any, and the
  context \<^verbatim>\<open>(defaultChannel, defaultChatId, defaultMetadata)\<close>. The callback acts on
  the world \<open>'w\<close> it closes over and returns \<open>Some e\<close> when its promise rejects with \<open>e\<close>
  (the text \<^verbatim>\<open>`${error}`\<close> of it).
\<close>

record message_params =
  p_content :: string
  p_channel :: "string option"
  p_chat_id :: "string option"

definition setContext :: "string \<Rightarrow> string \<Rightarrow> jval option \<Rightarrow> string \<times> string \<times> jval" where
  "setContext channel chatId md =
     (channel, chatId, or_empty_object (case md of None \<Rightarrow> None | Some m \<Rightarrow> Some (Some m)))"

text \<open>\<^verbatim>\<open>a || b\<close> on an optional string: an absent or empty \<open>a\<close> gives \<open>b\<close>.\<close>

definition or_string :: "string option \<Rightarrow> string \<Rightarrow> string" where
  "or_string a b = (case a of None \<Rightarrow> b | Some x \<Rightarrow> if x \<noteq> [] then x else b)"

definition MessageTool_execute ::
  "(outbound_message \<Rightarrow> 'w \<Rightarrow> string option \<times> 'w) option \<Rightarrow> string \<times> string \<times> jval \<Rightarrow>
   message_params \<Rightarrow> 'w \<Rightarrow> string \<times> 'w" where
  "MessageTool_execute sendCallback ctx params w =
     (case ctx of (defaultChannel, defaultChatId, defaultMetadata) \<Rightarrow>
        (let channel = or_string (p_channel params) defaultChannel;
             chatId = or_string (p_chat_id params) defaultChatId
         in if channel = [] \<or> chatId = [] then (''Error: No target channel/chat specified'', w)
            else (case sendCallback of
                    None \<Rightarrow> (''Error: Message sending not configured'', w)
                  | Some send \<Rightarrow>
                      (case send (createOutboundMessage channel chatId (p_content params)
                                    (Some defaultMetadata)) w of
                         (None, w') \<Rightarrow> (''Message sent to '' @ channel @ '':'' @ chatId, w')
                       | (Some e, w') \<Rightarrow> (''Error sending message: '' @ e, w')))))"

section \<open>infrastructure/llm/ai-sdk-provider.ts\<close>

record tool_call =
  tc_id :: string
  tc_name :: string
  tc_arguments :: jval

record llm_response =
  content :: "string option"
  toolCalls :: "tool_call list"
  finishReason :: string
  usage :: "nat \<times> nat"

text \<open>
  What \<^verbatim>\<open>generateText\<close> of the AI SDK resolves to: the text, for each step its tool
  calls (\<open>None\<close> when the step has no \<^verbatim>\<open>toolCalls\<close>), the finish reason and the usage.
\<close>

record sdk_tool_call =
  toolCallId :: string
  toolName :: string
  args :: jval

record gen_result =
  gen_text :: string
  gen_steps :: "sdk_tool_call list option list"
  gen_finishReason :: string
  gen_usage :: "(nat \<times> nat) option"

text \<open>The messages sent to the model (\<^verbatim>\<open>CoreMessage\<close>): a role and a content.\<close>

datatype part =
    TextPart string
  | ToolCallPart string string jval
  | ToolResultPart string string string

datatype core_content = Plain string | Parts "part list"

datatype core_message = CoreMessage string core_content

text \<open>
  The collaborators of the agent loop, each a function of the world it runs in:
  \<^item> \<open>generateText\<close>: \<^verbatim>\<open>getProvider\<close> and the SDK call, \<open>Inl e\<close> when either throws \<open>e\<close>;
  \<^item> \<open>execute\<close>: \<^verbatim>\<open>ToolRegistry.execute\<close>, whose file is not among the sources; by the
    spec it gives back a text for every call and never throws;
  \<^item> \<open>buildMessages\<close>: \<^verbatim>\<open>ContextBuilder.buildMessages\<close> (history, new content, media);
  \<^item> \<open>now\<close>: \<^verbatim>\<open>new Date().toISOString()\<close>.
  The model name, the token limit, the temperature and the tool definitions are passed
  through to the SDK and decide nothing here; they are part of \<open>generateText\<close>.
\<close>

record 'e externals =
  generateText :: "core_message list \<Rightarrow> 'e world \<Rightarrow> (string + gen_result) \<times> 'e world"
  execute :: "string \<Rightarrow> jval \<Rightarrow> 'e world \<Rightarrow> string \<times> 'e world"
  buildMessages :: "(json option \<times> json option) list \<Rightarrow> string \<Rightarrow> string list option \<Rightarrow>
                    'e world \<Rightarrow> core_message list \<times> 'e world"
  now :: "'e world \<Rightarrow> string \<times> 'e world"

text \<open>
  A collaborator may change the directory, the tool contexts and what lies outside.
  The cache is a private field of \<^verbatim>\<open>SessionManager\<close>: the cache a collaborator leaves
  is the cache it found.
\<close>

definition outside :: "('e world \<Rightarrow> 'a \<times> 'e world) \<Rightarrow> 'e world \<Rightarrow> 'a \<times> 'e world" where
  "outside f w = (case f w of (r, w') \<Rightarrow> (r, w' \<lparr> cache := cache w \<rparr>))"

definition from_sdk :: "sdk_tool_call \<Rightarrow> tool_call" where
  "from_sdk tc = \<lparr> tc_id = toolCallId tc, tc_name = toolName tc, tc_arguments = args tc \<rparr>"

definition AIProvider_chat :: "'e externals \<Rightarrow> core_message list \<Rightarrow> 'e world \<Rightarrow> llm_response \<times> 'e world" where
  "AIProvider_chat X msgs w =
     (case outside (generateText X msgs) w of
        (Inr result, w') \<Rightarrow>
          (\<lparr> content = (if gen_text result \<noteq> [] then Some (gen_text result) else None),
             toolCalls = concat (map (\<lambda>step. case step of None \<Rightarrow> [] | Some tcs \<Rightarrow> map from_sdk tcs)
                                     (gen_steps result)),
             finishReason = gen_finishReason result,
             usage = (case gen_usage result of None \<Rightarrow> (0, 0) | Some u \<Rightarrow> u) \<rparr>, w')
      | (Inl e, w') \<Rightarrow>
          (\<lparr> content = Some (''Error calling LLM: '' @ e), toolCalls = [],
             finishReason = ''error'', usage = (0, 0) \<rparr>, w'))"

definition hasToolCalls :: "llm_response \<Rightarrow> bool" where
  "hasToolCalls response = (length (toolCalls response) > 0)"

section \<open>agent/loop.ts\<close>


text \<open>The \<^verbatim>\<open>for\<close> loop over the tool calls of one response, in their order.\<close>

fun execute_tools :: "'e externals \<Rightarrow> tool_call list \<Rightarrow> core_message list \<Rightarrow> 'e world \<Rightarrow>
                      core_message list \<times> 'e world" where
  "execute_tools X [] msgs w = (msgs, w)"
| "execute_tools X (toolCall # rest) msgs w =
     (case outside (execute X (tc_name toolCall) (tc_arguments toolCall)) w of
        (result, w') \<Rightarrow>
          execute_tools X rest
            (msgs @ [CoreMessage ''tool''
                       (Parts [ToolResultPart (tc_id toolCall) (tc_name toolCall) result])]) w')"

text \<open>
  The \<^verbatim>\<open>while (iteration < this.maxIterations)\<close> loop, which \<open>processMessage\<close> and
  \<open>processSystemMessage\<close> both contain, statement for statement. It returns
  \<open>finalContent\<close> (\<open>None\<close> is \<^verbatim>\<open>null\<close>) and the world; \<open>answers\<close> collects, in order, what
  each call of \<^verbatim>\<open>provider.chat\<close> returned, to count the calls.
\<close>

definition assistant_message :: "llm_response \<Rightarrow> core_message" where
  "assistant_message response =
     CoreMessage ''assistant''
       (Parts ((case content response of
                  None \<Rightarrow> []
                | Some c \<Rightarrow> if c \<noteq> [] then [TextPart c] else [])
               @ map (\<lambda>tc. ToolCallPart (tc_id tc) (tc_name tc) (tc_arguments tc))
                     (toolCalls response)))"

function agent_loop :: "'e externals \<Rightarrow> int \<Rightarrow> nat \<Rightarrow> core_message list \<Rightarrow> llm_response list \<Rightarrow>
                        'e world \<Rightarrow> string option \<times> llm_response list \<times> 'e world" where
  "agent_loop X maxIterations iteration msgs answers w =
     (if int iteration < maxIterations then
        (case AIProvider_chat X msgs w of
           (response, w1) \<Rightarrow>
             if hasToolCalls response then
               (case execute_tools X (toolCalls response) (msgs @ [assistant_message response]) w1 of
                  (msgs2, w2) \<Rightarrow>
                    agent_loop X maxIterations (iteration + 1) msgs2 (answers @ [response]) w2)
             else (content response, answers @ [response], w1))
      else (None, answers, w))"
  by pat_completeness auto
termination
  by (relation "measure (\<lambda>(X, maxIterations, iteration, msgs, answers, w).
                   nat (maxIterations - int iteration))") auto

text \<open>
  One turn, as observed: the message returned (\<open>None\<close> is \<^verbatim>\<open>null\<close>), the session key the
  turn resolved (the local \<^verbatim>\<open>sessionKey\<close>), the answers of the model, and the world after.
\<close>

record 'e turn =
  reply :: "outbound_message option"
  sessionKey :: string
  model_answers :: "llm_response list"
  after :: "'e world"

text \<open>
  The three statements that end both functions: \<open>addMessage\<close> for the user entry,
  \<open>addMessage\<close> for the assistant entry, each with its own reading of the clock, and
  \<open>save\<close>.
\<close>

definition finish_turn ::
  "'e externals \<Rightarrow> session \<Rightarrow> string \<Rightarrow> string \<Rightarrow> 'e world \<Rightarrow> 'e world" where
  "finish_turn X s userContent finalContent w =
     (case outside (now X) w of
        (t1, w1) \<Rightarrow>
          (case outside (now X) w1 of
             (t2, w2) \<Rightarrow>
               save (addMessage (addMessage s ''user'' userContent t1 [])
                                ''assistant'' finalContent t2 []) w2))"

text \<open>
  The origin of a system message, \<^verbatim>\<open>(originChannel, originChatId)\<close>: the first two
  pieces of the chat id when it has a colon, and \<^verbatim>\<open>cli\<close> with the whole chat id when it has
  none. (With a colon in it the chat id splits into at least two pieces:
  \<open>split_limit_two\<close> below.)
\<close>

definition parse_origin :: "string \<Rightarrow> string \<times> string" where
  "parse_origin chatId =
     (if CHR '':'' \<in> set chatId
      then (let parts = split_limit CHR '':'' 2 chatId in (parts ! 0, parts ! 1))
      else (''cli'', chatId))"

definition processSystemMessage :: "'e externals \<Rightarrow> int \<Rightarrow> inbound_message \<Rightarrow> 'e world \<Rightarrow> 'e turn" where
  "processSystemMessage X maxIterations msg w =
     (case parse_origin (in_chatId msg) of
        (originChannel, originChatId) \<Rightarrow>
          (let sessionKey = originChannel @ '':'' @ originChatId in
           case getOrCreate sessionKey w of
             (s, w1) \<Rightarrow>
               (let w2 = w1 \<lparr> messageTool := setContext originChannel originChatId (Some (in_metadata msg)),
                              spawnTool := (originChannel, originChatId) \<rparr>;
                    history = getHistory s 50
                in case outside (buildMessages X history (in_content msg) None) w2 of
                     (msgs, w3) \<Rightarrow>
                       (case agent_loop X maxIterations 0 msgs [] w3 of
                          (finalContent, answers, w4) \<Rightarrow>
                            (let final = (case finalContent of
                                            None \<Rightarrow> ''Background task completed.''
                                          | Some c \<Rightarrow> c)
                             in \<lparr> reply = Some (createOutboundMessage originChannel originChatId final None),
                                  sessionKey = sessionKey,
                                  model_answers = answers,
                                  after = finish_turn X s
                                            (''[System: '' @ in_senderId msg @ ''] '' @ in_content msg)
                                            final w4 \<rparr>)))))"

definition processMessage :: "'e externals \<Rightarrow> int \<Rightarrow> inbound_message \<Rightarrow> 'e world \<Rightarrow> 'e turn" where
  "processMessage X maxIterations msg w =
     (if in_channel msg = ''system'' then processSystemMessage X maxIterations msg w
      else
        (let sessionKey = getSessionKey msg in
         case getOrCreate sessionKey w of
           (s, w1) \<Rightarrow>
             (let w2 = w1 \<lparr> messageTool := setContext (in_channel msg) (in_chatId msg) (Some (in_metadata msg)),
                            spawnTool := (in_channel msg, in_chatId msg) \<rparr>;
                  history = getHistory s 50
              in case outside (buildMessages X history (in_content msg) (Some (in_media msg))) w2 of
                   (msgs, w3) \<Rightarrow>
                     (case agent_loop X maxIterations 0 msgs [] w3 of
                        (finalContent, answers, w4) \<Rightarrow>
                          (let final = (case finalContent of
                                          None \<Rightarrow> ''I've completed processing but have no response to give.''
                                        | Some c \<Rightarrow> c)
                           in \<lparr> reply = Some (createOutboundMessage (in_channel msg) (in_chatId msg) final
                                                 (Some (in_metadata msg))),
                                sessionKey = sessionKey,
                                model_answers = answers,
                                after = finish_turn X s (in_content msg) final w4 \<rparr>)))))"






section \<open>Invariants and sample collaborators\<close>

text \<open>
  Every entry of the cache is filed under the key of its session: \<open>getOrCreate\<close> and
  \<open>save\<close>, the only writers of the cache, keep it so.
\<close>

definition cache_ok :: "'e world \<Rightarrow> bool" where
  "cache_ok w = list_all (\<lambda>(k, s). key s = k) (cache w)"

text \<open>
  What the type \<^verbatim>\<open>Session\<close> gives and a session file needs: no message carries the
  mark of a metadata line (a \<^verbatim>\<open>SessionMessage\<close> has no \<^verbatim>\<open>_type\<close>), and the metadata,
  an object, is truthy.
\<close>

definition storable :: "session \<Rightarrow> bool" where
  "storable s = (list_all (\<lambda>m. \<not> is_metadata_line m) (messages s) \<and> truthy (metadata s))"

text \<open>The values that the lines of a file parse to, in order, \<^verbatim>\<open>null\<close> left out.\<close>

definition line_values :: "line list \<Rightarrow> jval list" where
  "line_values ls = concat (map (\<lambda>l. case l of Text (Some v) \<Rightarrow> [v] | _ \<Rightarrow> []) ls)"

text \<open>A process that has just started, on an empty sessions directory.\<close>

definition fresh_world :: "unit world" where
  "fresh_world = \<lparr> cache = [], disk = [], messageTool = ([], [], JObj []),
                    spawnTool = ([], []), ext = () \<rparr>"



text \<open>
  Two sets of collaborators to run the definitions on. With \<open>answering a\<close> the model
  answers every call with the text \<open>a\<close> and no tool call; with \<open>tool_asking\<close> it asks
  for the tool \<^verbatim>\<open>list_dir\<close> on every call. In both, a tool returns \<^verbatim>\<open>done\<close>, the
  context is the new content alone and the clock stands still.
\<close>

definition answering :: "string \<Rightarrow> unit externals" where
  "answering a =
     \<lparr> generateText = (\<lambda>msgs w. (Inr \<lparr> gen_text = a, gen_steps = [], gen_finishReason = ''stop'',
                                         gen_usage = None \<rparr>, w)),
       execute = (\<lambda>name arguments w. (''done'', w)),
       buildMessages = (\<lambda>history new media w. ([CoreMessage ''user'' (Plain new)], w)),
       now = (\<lambda>w. (''2026-01-01T00:00:00.000Z'', w)) \<rparr>"


section \<open>Paths and the session store\<close>

lemma getSessionPath_a: "getSessionPath ''a:b_c'' = ''a_b_c.jsonl''"
  by code_simp

lemma getSessionPath_b: "getSessionPath ''a_b:c'' = ''a_b_c.jsonl''"
  by code_simp

lemma getSessionPath_telegram: "getSessionPath ''telegram:42'' = ''telegram_42.jsonl''"
  by code_simp


lemma list_all_update:
  "list_all P al \<Longrightarrow> P (k, v) \<Longrightarrow> list_all P (AList.update k v al)"
  by (induction al) auto






lemma save_cache_ok: "cache_ok w \<Longrightarrow> cache_ok (save s w)"
  by (simp add: save_def cache_ok_def list_all_update)


subsection \<open>Reading back what \<open>save\<close> wrote\<close>







lemma truthy_or_empty_object: "truthy (or_empty_object x)"
  by (cases x rule: or_empty_object.cases) auto

lemma load_lines_storable:
  "load_lines ls msgs md = Inr (msgs', md') \<Longrightarrow>
   list_all (\<lambda>m. \<not> is_metadata_line m) msgs \<Longrightarrow> truthy md \<Longrightarrow>
   list_all (\<lambda>m. \<not> is_metadata_line m) msgs' \<and> truthy md'"
  by (induction ls msgs md rule: load_lines.induct)
     (auto simp: truthy_or_empty_object split: if_splits)

lemma storable_load: "load k w = Some s \<Longrightarrow> storable s"
  by (auto simp: load_def load_try_def storable_def
           split: option.splits sum.splits file_data.splits dest: load_lines_storable)



text \<open>
  C9. The map from session key to file is not injective. The distinct keys \<^verbatim>\<open>a:b_c\<close>
  and \<^verbatim>\<open>a_b:c\<close> have the same path; saving a session under the second after one under
  the first leaves, at the path of the first, the file of the second; and the key that
  \<open>listSessions\<close> reports for that file is \<^verbatim>\<open>a:b_c\<close>, also when only \<^verbatim>\<open>a_b:c\<close> was ever
  saved.
\<close>

theorem session_path_collision:
  "''a:b_c'' \<noteq> ''a_b:c''
   \<and> getSessionPath ''a:b_c'' = getSessionPath ''a_b:c''
   \<and> map_of (disk (save (s2 \<lparr> key := ''a_b:c'' \<rparr>) (save (s1 \<lparr> key := ''a:b_c'' \<rparr>) w)))
         (getSessionPath ''a:b_c'') = Some (session_file (s2 \<lparr> key := ''a_b:c'' \<rparr>))
   \<and> listed_key (getSessionPath ''a_b:c'') = ''a:b_c''
   \<and> listSessions (save (createSession ''a_b:c'') (w \<lparr> disk := [] \<rparr>))
       = [(''a:b_c'', getSessionPath ''a_b:c'')]"
proof -
  have l: "listed_key ''a_b_c.jsonl'' = ''a:b_c''"
    by code_simp
  have e: "endsWith ''a_b_c.jsonl'' ''.jsonl''"
    by code_simp
  show ?thesis
    by (simp add: getSessionPath_a getSessionPath_b save_def AList.update_conv' l e
          listSessions_def is_metadata_first_def is_metadata_line_def session_file_def
          createSession_def)
qed

text \<open>
  C8, as amended. \<open>addMessage\<close> keeps the sequence it finds as a prefix of the sequence
  it leaves. \<open>clearSession\<close> does not: it leaves the empty sequence.
\<close>

theorem addMessage_appends_clearSession_empties:
  "prefix (messages s) (messages (addMessage s r c t e))
   \<and> messages (clearSession s) = []"
  by (simp add: addMessage_def clearSession_def)

text \<open>
  C8 as stated fails on \<open>clearSession\<close>: a session of one message is cleared, and the
  one message is no prefix of what is left.
\<close>

theorem clearSession_not_append_only:
  "\<not> prefix (messages (addMessage (createSession ''telegram:42'') ''user'' ''hello'' ''2026-01-01T00:00:00.000Z'' []))
            (messages (clearSession
               (addMessage (createSession ''telegram:42'') ''user'' ''hello'' ''2026-01-01T00:00:00.000Z'' [])))"
  by (simp add: addMessage_def clearSession_def createSession_def)

subsection \<open>What \<open>load\<close> makes of a file\<close>

lemma line_values_filter: "line_values (filter (\<lambda>l. l \<noteq> Blank) ls) = line_values ls"
  by (induction ls) (auto simp: line_values_def)

lemma load_lines_fails:
  "Junk \<in> set ls \<or> Text None \<in> set ls \<or> Blank \<in> set ls \<Longrightarrow> \<exists>e. load_lines ls msgs md = Inl e"
  by (induction ls msgs md rule: load_lines.induct) auto

lemma load_lines_reads:
  "Junk \<notin> set ls \<Longrightarrow> Text None \<notin> set ls \<Longrightarrow> Blank \<notin> set ls \<Longrightarrow>
   load_lines ls msgs md =
     Inr (msgs @ filter (\<lambda>v. \<not> is_metadata_line v) (line_values ls),
          (case filter is_metadata_line (line_values ls) of
             [] \<Rightarrow> md
           | marked \<Rightarrow> or_empty_object (get_prop (last marked) ''metadata'')))"
proof (induction ls msgs md rule: load_lines.induct)
  case (5 d ls msgs md)
  then show ?case
    by (auto simp: line_values_def split: list.splits)
qed (auto simp: line_values_def)

lemma load_try_fails:
  assumes "f = Unreadable \<or> (\<exists>ls. f = Content ls \<and> (Junk \<in> set ls \<or> Text None \<in> set ls))"
  shows "\<exists>e. load_try k f = Inl e"
proof (cases f)
  case Unreadable
  then show ?thesis by (simp add: load_try_def)
next
  case (Content ls)
  with assms have "Junk \<in> set (filter (\<lambda>l. l \<noteq> Blank) ls)
      \<or> Text None \<in> set (filter (\<lambda>l. l \<noteq> Blank) ls)"
    by auto
  then obtain e where "load_lines (filter (\<lambda>l. l \<noteq> Blank) ls) [] (JObj []) = Inl e"
    using load_lines_fails [of "filter (\<lambda>l. l \<noteq> Blank) ls" "[]" "JObj []"] by blast
  with Content show ?thesis by (simp add: load_try_def)
qed

lemma load_try_reads:
  "Junk \<notin> set ls \<Longrightarrow> Text None \<notin> set ls \<Longrightarrow>
   load_try k (Content ls) =
     Inr \<lparr> key = k, messages = filter (\<lambda>v. \<not> is_metadata_line v) (line_values ls),
           metadata = (case filter is_metadata_line (line_values ls) of
                         [] \<Rightarrow> JObj []
                       | marked \<Rightarrow> or_empty_object (get_prop (last marked) ''metadata'')) \<rparr>"
  using load_lines_reads [of "filter (\<lambda>l. l \<noteq> Blank) ls" "[]" "JObj []"]
  by (simp add: load_try_def line_values_filter)

text \<open>
  C6. \<open>getOrCreate\<close> returns the cached session when the key is cached, and changes
  nothing. Otherwise it caches what it returns and leaves the directory alone; it returns
  a new empty session when there is no file, and also when the file cannot be read or has
  a line that is not JSON or is \<^verbatim>\<open>null\<close>; and when every line that is not blank parses,
  it returns the session read from the file: the lines that are not metadata lines as
  messages, in order, and the metadata of the last metadata line. These cases are all
  there are, and each yields a session: nothing is thrown.
\<close>

theorem getOrCreate_cases:
  "(map_of (cache w) k = Some cached \<longrightarrow> getOrCreate k w = (cached, w))
   \<and> (map_of (cache w) k = None \<longrightarrow>
        cache (snd (getOrCreate k w)) = AList.update k (fst (getOrCreate k w)) (cache w)
        \<and> disk (snd (getOrCreate k w)) = disk w)
   \<and> (map_of (cache w) k = None \<and> map_of (disk w) (getSessionPath k) = None \<longrightarrow>
        fst (getOrCreate k w) = createSession k)
   \<and> (map_of (cache w) k = None \<and> map_of (disk w) (getSessionPath k) = Some f
        \<and> (f = Unreadable \<or> (\<exists>ls. f = Content ls \<and> (Junk \<in> set ls \<or> Text None \<in> set ls))) \<longrightarrow>
        fst (getOrCreate k w) = createSession k)
   \<and> (map_of (cache w) k = None \<and> map_of (disk w) (getSessionPath k) = Some (Content ls)
        \<and> Junk \<notin> set ls \<and> Text None \<notin> set ls \<longrightarrow>
        fst (getOrCreate k w) =
          \<lparr> key = k, messages = filter (\<lambda>v. \<not> is_metadata_line v) (line_values ls),
            metadata = (case filter is_metadata_line (line_values ls) of
                          [] \<Rightarrow> JObj []
                        | marked \<Rightarrow> or_empty_object (get_prop (last marked) ''metadata'')) \<rparr>)"
proof (intro conjI impI)
  assume "map_of (cache w) k = Some cached"
  then show "getOrCreate k w = (cached, w)" by (simp add: getOrCreate_def)
next
  assume "map_of (cache w) k = None"
  then show "cache (snd (getOrCreate k w)) = AList.update k (fst (getOrCreate k w)) (cache w)"
    and "disk (snd (getOrCreate k w)) = disk w"
    by (simp_all add: getOrCreate_def Let_def)
next
  assume "map_of (cache w) k = None \<and> map_of (disk w) (getSessionPath k) = None"
  then show "fst (getOrCreate k w) = createSession k"
    by (simp add: getOrCreate_def load_def Let_def)
next
  assume a: "map_of (cache w) k = None \<and> map_of (disk w) (getSessionPath k) = Some f
        \<and> (f = Unreadable \<or> (\<exists>ls. f = Content ls \<and> (Junk \<in> set ls \<or> Text None \<in> set ls)))"
  then obtain e where "load_try k f = Inl e" using load_try_fails [of f k] by blast
  with a show "fst (getOrCreate k w) = createSession k"
    by (simp add: getOrCreate_def load_def Let_def)
next
  assume a: "map_of (cache w) k = None \<and> map_of (disk w) (getSessionPath k) = Some (Content ls)
        \<and> Junk \<notin> set ls \<and> Text None \<notin> set ls"
  then show "fst (getOrCreate k w) =
          \<lparr> key = k, messages = filter (\<lambda>v. \<not> is_metadata_line v) (line_values ls),
            metadata = (case filter is_metadata_line (line_values ls) of
                          [] \<Rightarrow> JObj []
                        | marked \<Rightarrow> or_empty_object (get_prop (last marked) ''metadata'')) \<rparr>"
    by (simp add: getOrCreate_def load_def Let_def load_try_reads)
qed

text \<open>
  The five cases of C6 at work for the key \<^verbatim>\<open>telegram:42\<close>: cached; no file; a file
  that cannot be read; a file with a line that is not JSON; a file that parses.
\<close>

theorem getOrCreate_cases_witness:
  "getOrCreate ''telegram:42'' (fresh_world \<lparr> cache := [(''telegram:42'', createSession ''telegram:42'')] \<rparr>)
     = (createSession ''telegram:42'', fresh_world \<lparr> cache := [(''telegram:42'', createSession ''telegram:42'')] \<rparr>)
   \<and> fst (getOrCreate ''telegram:42'' fresh_world) = createSession ''telegram:42''
   \<and> fst (getOrCreate ''telegram:42'' (fresh_world \<lparr> disk := [(''telegram_42.jsonl'', Unreadable)] \<rparr>))
       = createSession ''telegram:42''
   \<and> fst (getOrCreate ''telegram:42''
            (fresh_world \<lparr> disk := [(''telegram_42.jsonl'',
                 Content [Text (Some (JObj [(''role'', Some (JStr ''user''))])), Junk, Blank])] \<rparr>))
       = createSession ''telegram:42''
   \<and> fst (getOrCreate ''telegram:42''
            (fresh_world \<lparr> disk := [(''telegram_42.jsonl'',
                 Content [Text (Some (JObj [(''_type'', Some (JStr ''metadata'')),
                                             (''metadata'', Some (JObj [(''lang'', Some (JStr ''en''))]))])),
                          Text (Some (JObj [(''role'', Some (JStr ''user'')), (''content'', Some (JStr ''hello''))])),
                          Blank])] \<rparr>))
       = \<lparr> key = ''telegram:42'',
           messages = [JObj [(''role'', Some (JStr ''user'')), (''content'', Some (JStr ''hello''))]],
           metadata = JObj [(''lang'', Some (JStr ''en''))] \<rparr>"
proof -
  let ?k = "''telegram:42''"
  let ?bad = "Content [Text (Some (JObj [(''role'', Some (JStr ''user''))])), Junk, Blank]"
  let ?good = "[Text (Some (JObj [(''_type'', Some (JStr ''metadata'')),
                                  (''metadata'', Some (JObj [(''lang'', Some (JStr ''en''))]))])),
                Text (Some (JObj [(''role'', Some (JStr ''user'')), (''content'', Some (JStr ''hello''))])),
                Blank]"
  have 1: "getOrCreate ?k (fresh_world \<lparr> cache := [(?k, createSession ?k)] \<rparr>)
     = (createSession ?k, fresh_world \<lparr> cache := [(?k, createSession ?k)] \<rparr>)"
    using getOrCreate_cases [of "fresh_world \<lparr> cache := [(?k, createSession ?k)] \<rparr>" ?k "createSession ?k"]
    by simp
  have 2: "fst (getOrCreate ?k fresh_world) = createSession ?k"
    using getOrCreate_cases [of fresh_world ?k] by (simp add: fresh_world_def)
  have 3: "fst (getOrCreate ?k (fresh_world \<lparr> disk := [(''telegram_42.jsonl'', Unreadable)] \<rparr>)) = createSession ?k"
    using getOrCreate_cases [of "fresh_world \<lparr> disk := [(''telegram_42.jsonl'', Unreadable)] \<rparr>" ?k _ Unreadable]
    by (simp add: fresh_world_def getSessionPath_telegram)
  have 4: "fst (getOrCreate ?k (fresh_world \<lparr> disk := [(''telegram_42.jsonl'', ?bad)] \<rparr>)) = createSession ?k"
    using getOrCreate_cases [of "fresh_world \<lparr> disk := [(''telegram_42.jsonl'', ?bad)] \<rparr>" ?k _ ?bad]
    by (simp add: fresh_world_def getSessionPath_telegram)
  have 5: "fst (getOrCreate ?k (fresh_world \<lparr> disk := [(''telegram_42.jsonl'', Content ?good)] \<rparr>))
       = \<lparr> key = ?k,
           messages = [JObj [(''role'', Some (JStr ''user'')), (''content'', Some (JStr ''hello''))]],
           metadata = JObj [(''lang'', Some (JStr ''en''))] \<rparr>"
    using getOrCreate_cases [of "fresh_world \<lparr> disk := [(''telegram_42.jsonl'', Content ?good)] \<rparr>" ?k _ _ ?good]
    by (simp add: fresh_world_def getSessionPath_telegram line_values_def is_metadata_line_def)
  from 1 2 3 4 5 show ?thesis by blast
qed

section \<open>Failures of the model call and of the message tool\<close>

text \<open>
  C7. When \<^verbatim>\<open>generateText\<close> throws \<open>e\<close>, \<open>chat\<close> returns a response whose content is
  \<^verbatim>\<open>Error calling LLM: \<close> followed by \<open>e\<close> and whose list of tool calls is empty. The
  message tool returns \<^verbatim>\<open>Error: No target channel/chat specified\<close> when channel or chat
  id is missing, \<^verbatim>\<open>Error: Message sending not configured\<close> when there is no callback, and
  \<^verbatim>\<open>Error sending message: \<close> followed by \<open>e'\<close> when the callback fails with \<open>e'\<close>; whatever
  happens, it returns a text that begins with \<^verbatim>\<open>Message sent to\<close> or with \<^verbatim>\<open>Error\<close>. Both
  functions return in every case.
\<close>

theorem failures_become_text:
  "(fst (generateText X msgs w) = Inl e \<longrightarrow>
      content (fst (AIProvider_chat X msgs w)) = Some (''Error calling LLM: '' @ e)
      \<and> toolCalls (fst (AIProvider_chat X msgs w)) = [])
   \<and> (or_string (p_channel params) defaultChannel = [] \<or> or_string (p_chat_id params) defaultChatId = [] \<longrightarrow>
        MessageTool_execute sendCallback (defaultChannel, defaultChatId, defaultMetadata) params v
          = (''Error: No target channel/chat specified'', v))
   \<and> (or_string (p_channel params) defaultChannel \<noteq> [] \<and> or_string (p_chat_id params) defaultChatId \<noteq> [] \<longrightarrow>
        MessageTool_execute None (defaultChannel, defaultChatId, defaultMetadata) params v
          = (''Error: Message sending not configured'', v))
   \<and> (or_string (p_channel params) defaultChannel \<noteq> [] \<and> or_string (p_chat_id params) defaultChatId \<noteq> []
       \<and> fst (send (createOutboundMessage (or_string (p_channel params) defaultChannel)
                       (or_string (p_chat_id params) defaultChatId) (p_content params)
                       (Some defaultMetadata)) v) = Some e' \<longrightarrow>
        fst (MessageTool_execute (Some send) (defaultChannel, defaultChatId, defaultMetadata) params v)
          = ''Error sending message: '' @ e')
   \<and> (prefix ''Message sent to '' (fst (MessageTool_execute sendCallback ctx params v))
       \<or> prefix ''Error'' (fst (MessageTool_execute sendCallback ctx params v)))"
  by (auto simp: AIProvider_chat_def outside_def MessageTool_execute_def Let_def
           split: prod.splits sum.splits option.splits)

text \<open>
  C7 at work: a model call that times out, a message without target, a tool without
  callback, and a callback that fails.
\<close>

theorem failures_become_text_witness:
  "content (fst (AIProvider_chat ((answering ''ok'') \<lparr> generateText := (\<lambda>msgs w. (Inl ''timeout'', w)) \<rparr>) [] fresh_world))
     = Some ''Error calling LLM: timeout''
   \<and> toolCalls (fst (AIProvider_chat ((answering ''ok'') \<lparr> generateText := (\<lambda>msgs w. (Inl ''timeout'', w)) \<rparr>) [] fresh_world)) = []
   \<and> MessageTool_execute (Some (\<lambda>msg v. (None, v))) ([], [], JObj [])
        \<lparr> p_content = ''hi'', p_channel = None, p_chat_id = None \<rparr> ()
       = (''Error: No target channel/chat specified'', ())
   \<and> MessageTool_execute None (''telegram'', ''42'', JObj [])
        \<lparr> p_content = ''hi'', p_channel = None, p_chat_id = None \<rparr> ()
       = (''Error: Message sending not configured'', ())
   \<and> fst (MessageTool_execute (Some (\<lambda>msg v. (Some ''network down'', v))) (''telegram'', ''42'', JObj [])
        \<lparr> p_content = ''hi'', p_channel = None, p_chat_id = None \<rparr> ())
       = ''Error sending message: network down''"
proof -
  let ?X = "(answering ''ok'') \<lparr> generateText := (\<lambda>msgs w. (Inl ''timeout'', w)) \<rparr>"
  let ?p = "\<lparr> p_content = ''hi'', p_channel = None, p_chat_id = None \<rparr>"
  have 1: "content (fst (AIProvider_chat ?X [] fresh_world)) = Some ''Error calling LLM: timeout''
      \<and> toolCalls (fst (AIProvider_chat ?X [] fresh_world)) = []"
    using failures_become_text
            [where X = ?X and msgs = "[]" and w = fresh_world and e = "''timeout''", THEN conjunct1]
    by simp
  have 2: "MessageTool_execute (Some (\<lambda>msg v. (None, v))) ([], [], JObj []) ?p ()
       = (''Error: No target channel/chat specified'', ())"
    using failures_become_text
            [where params = ?p and defaultChannel = "[]" and defaultChatId = "[]"
               and defaultMetadata = "JObj []" and sendCallback = "Some (\<lambda>msg v. (None, v))"
               and v = "()",
             THEN conjunct2, THEN conjunct1]
    by (simp add: or_string_def)
  have 3: "MessageTool_execute None (''telegram'', ''42'', JObj []) ?p ()
       = (''Error: Message sending not configured'', ())"
    using failures_become_text
            [where params = ?p and defaultChannel = "''telegram''" and defaultChatId = "''42''"
               and defaultMetadata = "JObj []" and v = "()",
             THEN conjunct2, THEN conjunct2, THEN conjunct1]
    by (simp add: or_string_def)
  have 4: "fst (MessageTool_execute (Some (\<lambda>msg v. (Some ''network down'', v))) (''telegram'', ''42'', JObj []) ?p ())
       = ''Error sending message: network down''"
    using failures_become_text
            [where params = ?p and defaultChannel = "''telegram''" and defaultChatId = "''42''"
               and defaultMetadata = "JObj []" and v = "()"
               and send = "\<lambda>msg v. (Some ''network down'', v)" and e' = "''network down''",
             THEN conjunct2, THEN conjunct2, THEN conjunct2, THEN conjunct1]
    by (simp add: or_string_def)
  from 1 2 3 4 show ?thesis by blast
qed

section \<open>The agent loop\<close>

subsection \<open>Collaborators leave the cache alone\<close>






subsection \<open>The answers of the model in one run of the loop\<close>


subsection \<open>One turn\<close>



text \<open>The reply and the answers of a turn, in terms of the run of the loop inside it.\<close>

lemma processMessage_shape:
  "\<exists>msgs w3 fc w4.
     agent_loop X n 0 msgs [] w3 = (fc, model_answers (processMessage X n m w), w4)
     \<and> reply (processMessage X n m w) =
         Some (if in_channel m = ''system''
               then createOutboundMessage (fst (parse_origin (in_chatId m))) (snd (parse_origin (in_chatId m)))
                      (case fc of None \<Rightarrow> ''Background task completed.'' | Some c \<Rightarrow> c) None
               else createOutboundMessage (in_channel m) (in_chatId m)
                      (case fc of None \<Rightarrow> ''I've completed processing but have no response to give.''
                       | Some c \<Rightarrow> c)
                      (Some (in_metadata m)))"
proof (cases "in_channel m = ''system''")
  case True
  obtain oc oi where p: "parse_origin (in_chatId m) = (oc, oi)"
    by (cases "parse_origin (in_chatId m)")
  obtain s w1 where g: "getOrCreate (oc @ '':'' @ oi) w = (s, w1)"
    by (cases "getOrCreate (oc @ '':'' @ oi) w")
  let ?w2 = "w1 \<lparr> messageTool := setContext oc oi (Some (in_metadata m)), spawnTool := (oc, oi) \<rparr>"
  obtain msgs w3 where b: "outside (buildMessages X (getHistory s 50) (in_content m) None) ?w2 = (msgs, w3)"
    by (cases "outside (buildMessages X (getHistory s 50) (in_content m) None) ?w2")
  obtain fc ans w4 where l: "agent_loop X n 0 msgs [] w3 = (fc, ans, w4)"
    by (cases "agent_loop X n 0 msgs [] w3")
  from True p g b l show ?thesis
    by (intro exI [of _ msgs] exI [of _ w3] exI [of _ fc] exI [of _ w4])
       (simp add: processMessage_def processSystemMessage_def Let_def)
next
  case False
  obtain s w1 where g: "getOrCreate (getSessionKey m) w = (s, w1)"
    by (cases "getOrCreate (getSessionKey m) w")
  let ?w2 = "w1 \<lparr> messageTool := setContext (in_channel m) (in_chatId m) (Some (in_metadata m)),
                   spawnTool := (in_channel m, in_chatId m) \<rparr>"
  obtain msgs w3 where
    b: "outside (buildMessages X (getHistory s 50) (in_content m) (Some (in_media m))) ?w2 = (msgs, w3)"
    by (cases "outside (buildMessages X (getHistory s 50) (in_content m) (Some (in_media m))) ?w2")
  obtain fc ans w4 where l: "agent_loop X n 0 msgs [] w3 = (fc, ans, w4)"
    by (cases "agent_loop X n 0 msgs [] w3")
  from False g b l show ?thesis
    by (intro exI [of _ msgs] exI [of _ w3] exI [of _ fc] exI [of _ w4])
       (simp add: processMessage_def Let_def)
qed

lemma sessionKey_processSystemMessage:
  "sessionKey (processSystemMessage X n m w) =
     fst (parse_origin (in_chatId m)) @ '':'' @ snd (parse_origin (in_chatId m))"
  by (simp add: processSystemMessage_def Let_def split: prod.splits)

lemma sessionKey_processMessage:
  "sessionKey (processMessage X n m w) =
     (if in_channel m = ''system''
      then fst (parse_origin (in_chatId m)) @ '':'' @ snd (parse_origin (in_chatId m))
      else getSessionKey m)"
  by (simp add: processMessage_def sessionKey_processSystemMessage Let_def split: prod.splits)

subsection \<open>The origin of a system message\<close>

lemma split_on_nonempty: "split_on c s \<noteq> []"
  by (induction s) (auto split: list.splits)

lemma split_on_append: "c \<notin> set a \<Longrightarrow> split_on c (a @ c # b) = a # split_on c b"
  by (induction a) auto

lemma split_on_hd: "hd (split_on c s) = takeWhile (\<lambda>x. x \<noteq> c) s"
  by (induction s) (auto split: list.splits simp: split_on_nonempty)

text \<open>
  When the chat id has a colon, \<^verbatim>\<open>split(":", 2)\<close> has two pieces, so \<^verbatim>\<open>parts[1]\<close> is
  there. The origin chat id it yields ends before the second colon.
\<close>

lemma split_limit_two: "CHR '':'' \<in> set s \<Longrightarrow> length (split_limit CHR '':'' 2 s) = 2"
proof -
  assume "CHR '':'' \<in> set s"
  then obtain a b where s: "s = a @ CHR '':'' # b" and a: "CHR '':'' \<notin> set a"
    by (auto dest: split_list_first)
  obtain p ps where "split_on CHR '':'' b = p # ps"
    using split_on_nonempty [of "CHR '':''" b] by (cases "split_on CHR '':'' b") auto
  with s a show ?thesis by (simp add: split_limit_def split_on_append)
qed

lemma parse_origin_colon:
  assumes "CHR '':'' \<notin> set oc"
  shows "parse_origin (oc @ '':'' @ oi) = (oc, takeWhile (\<lambda>x. x \<noteq> CHR '':'') oi)"
proof -
  obtain p ps where s: "split_on CHR '':'' oi = p # ps"
    using split_on_nonempty [of "CHR '':''" oi] by (cases "split_on CHR '':'' oi") auto
  have "p = takeWhile (\<lambda>x. x \<noteq> CHR '':'') oi"
    using split_on_hd [of "CHR '':''" oi] s by simp
  with assms s show ?thesis
    by (simp add: parse_origin_def split_limit_def split_on_append Let_def)
qed

lemma parse_origin_plain:
  "CHR '':'' \<notin> set oc \<Longrightarrow> CHR '':'' \<notin> set oi \<Longrightarrow> parse_origin (oc @ '':'' @ oi) = (oc, oi)"
  using parse_origin_colon [of oc oi] by (auto simp: takeWhile_eq_all_conv)

text \<open>
  The session key of a system message whose chat id is \<open>oc\<close>, a colon and \<open>oi\<close>: it is
  the chat id again exactly when \<open>oi\<close> has no colon.
\<close>

lemma system_session_key:
  assumes "in_channel m = ''system''" and "in_chatId m = oc @ '':'' @ oi" and "CHR '':'' \<notin> set oc"
  shows "sessionKey (processMessage X n m w) = oc @ '':'' @ takeWhile (\<lambda>x. x \<noteq> CHR '':'') oi"
    and "sessionKey (processMessage X n m w) = in_chatId m \<longleftrightarrow> CHR '':'' \<notin> set oi"
proof -
  show k: "sessionKey (processMessage X n m w) = oc @ '':'' @ takeWhile (\<lambda>x. x \<noteq> CHR '':'') oi"
    using assms parse_origin_colon [of oc oi] by (simp add: sessionKey_processMessage)
  show "sessionKey (processMessage X n m w) = in_chatId m \<longleftrightarrow> CHR '':'' \<notin> set oi"
    unfolding k assms(2) by (auto simp: takeWhile_eq_all_conv)
qed

section \<open>The reply of a turn, its bound and its session key\<close>






text \<open>
  C4, at the input where it fails. A system message whose chat id is \<^verbatim>\<open>telegram:42:7\<close>,
  origin channel \<^verbatim>\<open>telegram\<close> and origin chat id \<^verbatim>\<open>42:7\<close>, resolves to the session key
  \<^verbatim>\<open>telegram:42\<close>, and the reply goes to chat \<^verbatim>\<open>42\<close>: the same as for the chat id
  \<^verbatim>\<open>telegram:42\<close>.
\<close>

theorem system_chat_id_cut_at_second_colon:
  "sessionKey (processMessage X n \<lparr> in_channel = ''system'', in_senderId = sender,
        in_chatId = ''telegram:42:7'', in_content = c, in_timestamp = t, in_media = media,
        in_metadata = md \<rparr> w) = ''telegram:42''
   \<and> map_option out_chatId (reply (processMessage X n \<lparr> in_channel = ''system'', in_senderId = sender,
        in_chatId = ''telegram:42:7'', in_content = c, in_timestamp = t, in_media = media,
        in_metadata = md \<rparr> w)) = Some ''42''
   \<and> sessionKey (processMessage X n \<lparr> in_channel = ''system'', in_senderId = sender,
        in_chatId = ''telegram:42'', in_content = c, in_timestamp = t, in_media = media,
        in_metadata = md \<rparr> w) = ''telegram:42''"
proof -
  let ?m = "\<lparr> in_channel = ''system'', in_senderId = sender, in_chatId = ''telegram:42:7'',
              in_content = c, in_timestamp = t, in_media = media, in_metadata = md \<rparr>"
  have p: "parse_origin ''telegram:42:7'' = (''telegram'', ''42'')"
    by code_simp
  have q: "parse_origin ''telegram:42'' = (''telegram'', ''42'')"
    by code_simp
  have "map_option out_chatId (reply (processMessage X n ?m w)) = Some ''42''"
    using processMessage_shape [of X n ?m w] by (auto simp: p createOutboundMessage_def)
  then show ?thesis
    by (simp add: sessionKey_processMessage p q)
qed



section \<open>A sequence of turns on one session\<close>






end
